theory Spec2Isabelle
  imports Main
begin

section \<open>Errors and the boundary error handler\<close>

text \<open>
  Values that the services throw and that the controllers hand to \<open>next\<close>.
  \<^item> \<open>HttpException status message\<close> is the application's exception class. The class is
    not among the sources; it is built as \<open>new HttpException(409, message)\<close> and read as
    \<open>error.status\<close> and \<open>error.message\<close>.
  \<^item> \<open>Error message\<close> is a plain JavaScript \<open>Error\<close>: a message and no status.
  \<^item> \<open>PrismaClientKnownRequestError code message\<close> is what the storage client throws
    when a request violates a constraint of the schema (\<open>P2002\<close>: unique constraint,
    \<open>P2025\<close>: record not found); it has no \<open>status\<close> property.
  \<^item> \<open>RangeError message\<close> is what sending a response throws when the status code is
    not one a response accepts; it has no \<open>status\<close> property.
  \<^item> \<open>Thrown status message\<close> is any other value reaching the handler, with the
    \<open>status\<close> and \<open>message\<close> properties it has (\<open>None\<close>: undefined).
\<close>

datatype exception =
    HttpException int string
  | Error string
  | PrismaClientKnownRequestError string string
  | RangeError string
  | Thrown "int option" "string option"

fun exn_status :: "exception \<Rightarrow> int option" where
  "exn_status (HttpException s m) = Some s"
| "exn_status (Error m) = None"
| "exn_status (PrismaClientKnownRequestError c m) = None"
| "exn_status (RangeError m) = None"
| "exn_status (Thrown s m) = s"

fun exn_message :: "exception \<Rightarrow> string option" where
  "exn_message (HttpException s m) = Some m"
| "exn_message (Error m) = Some m"
| "exn_message (PrismaClientKnownRequestError c m) = Some m"
| "exn_message (RangeError m) = Some m"
| "exn_message (Thrown s m) = m"

text \<open>
  JavaScript's \<open>a || d\<close> on a number and on a string: \<open>undefined\<close>, \<open>0\<close> and the
  empty string are falsy and give the default.
\<close>

fun or_number :: "int option \<Rightarrow> int \<Rightarrow> int" where
  "or_number None d = d"
| "or_number (Some s) d = (if s = 0 then d else s)"

fun or_string :: "string option \<Rightarrow> string \<Rightarrow> string" where
  "or_string None d = d"
| "or_string (Some m) d = (if m = [] then d else m)"

text \<open>
  A JSON body as the controllers and the error handler send it: the success envelope
  is \<open>{ data, message }\<close> (or \<open>{ message }\<close> alone), the error envelope is
  \<open>{ message, status }\<close>. A key the body does not have is \<open>None\<close>.
\<close>

record 'a body =
  data :: "'a option"
  message :: string
  status :: "int option"

record 'a response =
  res_status :: int
  res_json :: "'a body"

text \<open>
  What a controller does with a request: it either sends a response, or passes an error
  to \<open>next\<close>, from where it reaches \<open>ErrorMiddleware\<close>.
\<close>

datatype 'a outcome = Responded "'a response" | Next exception

text \<open>
  \<open>res.status(status).json(body)\<close>: the response is sent when \<open>status\<close> is a status
  code that a response accepts, an integer from 100 to 999; for any other status the call
  throws a \<open>RangeError\<close> (\<open>ERR_HTTP_INVALID_STATUS_CODE\<close>, "Invalid status code" followed
  by the code) and no body is sent. The controllers below send with the status 200 or
  201, which is accepted.
\<close>

definition accepted_status :: "int \<Rightarrow> bool" where
  "accepted_status s = (100 \<le> s \<and> s \<le> 999)"

definition send_json :: "int \<Rightarrow> 'a body \<Rightarrow> exception + 'a response" where
  "send_json s b =
     (if accepted_status s then Inr \<lparr>res_status = s, res_json = b\<rparr>
      else Inl (RangeError ''Invalid status code''))"

text \<open>
  \<^verbatim>\<open>
  const ErrorMiddleware = (error, req, res, next) => {
      try {
          const status = error.status || 500;
          const message = error.message || 'Something went wrong';
          res.status(status).json({ message, status });
      }
      catch (error) {
          next(error);
      }
  };
  \<close>
\<close>

definition ErrorMiddleware :: "exception \<Rightarrow> 'a outcome" where
  "ErrorMiddleware error =
     (let status = or_number (exn_status error) 500;
          message = or_string (exn_message error) ''Something went wrong''
      in case send_json status \<lparr>data = None, message = message, status = Some status\<rparr> of
           Inr r \<Rightarrow> Responded r
         | Inl error' \<Rightarrow> Next error')"

text \<open>
  What the client gets in the end. An error that a controller passes to \<open>next\<close> is
  answered by \<open>ErrorMiddleware\<close>; an error that \<open>ErrorMiddleware\<close> itself passes to
  \<open>next\<close> reaches the default error handler of the framework, which answers with its
  own error page (status 500) and not with a JSON envelope.
\<close>

datatype 'a answer = Json "'a response" | DefaultErrorPage

fun settle :: "'a outcome \<Rightarrow> 'a answer" where
  "settle (Responded r) = Json r"
| "settle (Next e) =
     (case ErrorMiddleware e of Responded r \<Rightarrow> Json r | Next e' \<Rightarrow> DefaultErrorPage)"

section \<open>The data model\<close>

text \<open>
  The entities of the Prisma schema. Every model of the schema also has the timestamps
  \<open>createdAt\<close> and \<open>updatedAt\<close>, which the storage fills in and no operation below
  reads; they are left out. Identifiers are the opaque strings of \<open>@default(cuid())\<close>.
\<close>

datatype UserType = admin | user

record Admin =
  admin_id :: string
  admin_email :: string
  admin_name :: string
  admin_password :: string
  admin_status :: int
  admin_isSystem :: int

record Role =
  role_id :: string
  role_name :: string
  role_type :: UserType
  role_status :: int
  role_isSystem :: int

record Permission =
  permission_id :: string
  permission_name :: string
  permission_type :: UserType
  permission_parentId :: "string option"

record ModelHasRole =
  mhr_id :: string
  mhr_roleId :: string
  mhr_modelId :: string
  mhr_modelType :: UserType

record RoleHasPermission =
  rhp_roleId :: string
  rhp_permissionId :: string

text \<open>The store: one list of rows per table (\<open>@@map\<close> names).\<close>

record db =
  admins :: "Admin list"
  roles :: "Role list"
  permissions :: "Permission list"
  model_has_roles :: "ModelHasRole list"
  role_has_permissions :: "RoleHasPermission list"

section \<open>The storage client\<close>

text \<open>
  The operations of the Prisma client that \<open>AdminService\<close> calls, on the \<open>admins\<close>
  table. Each returns its result (or the error it throws) together with the store after
  the call. The schema's constraints are enforced here, as the database does:
  \<open>id\<close> is the primary key and \<open>email\<close> is \<open>@unique\<close>. Strings are compared
  character by character (the collation of the database is not modelled), and the
  messages of the storage errors are abbreviated.
\<close>

definition admin_findUnique_id :: "string \<Rightarrow> db \<Rightarrow> Admin option" where
  "admin_findUnique_id i d = find (\<lambda>a. admin_id a = i) (admins d)"

definition admin_findUnique_email :: "string \<Rightarrow> db \<Rightarrow> Admin option" where
  "admin_findUnique_email e d = find (\<lambda>a. admin_email a = e) (admins d)"

text \<open>
  The body of a create request, typed \<open>Admin\<close> by the controller: the required columns,
  and the columns with a default in the schema, which a caller may or may not send.
\<close>

record AdminCreateInput =
  c_id :: "string option"
  c_email :: string
  c_name :: string
  c_password :: string
  c_status :: "int option"
  c_isSystem :: "int option"

text \<open>The data of an update: every column is optional (\<open>undefined\<close> leaves it as it is).\<close>

record AdminUpdateInput =
  u_id :: "string option"
  u_email :: "string option"
  u_name :: "string option"
  u_password :: "string option"
  u_status :: "int option"
  u_isSystem :: "int option"

definition unique_id_failed :: exception where
  "unique_id_failed =
     PrismaClientKnownRequestError ''P2002'' ''Unique constraint failed on the constraint: PRIMARY''"

definition unique_email_failed :: exception where
  "unique_email_failed =
     PrismaClientKnownRequestError ''P2002'' ''Unique constraint failed on the fields: (email)''"

definition record_not_found :: exception where
  "record_not_found =
     PrismaClientKnownRequestError ''P2025'' ''Record to update not found.''"

text \<open>
  \<open>prisma.admin.create({ data })\<close>. The identifier is the one in \<open>data\<close> when there is
  one, and otherwise the value \<open>cuid\<close> that the schema's default generates for this
  insert; \<open>status\<close> and \<open>isSystem\<close> default to 1 and 0.
\<close>

definition new_admin :: "string \<Rightarrow> AdminCreateInput \<Rightarrow> Admin" where
  "new_admin cuid input =
     \<lparr>admin_id = (case c_id input of Some i \<Rightarrow> i | None \<Rightarrow> cuid),
      admin_email = c_email input,
      admin_name = c_name input,
      admin_password = c_password input,
      admin_status = (case c_status input of Some s \<Rightarrow> s | None \<Rightarrow> 1),
      admin_isSystem = (case c_isSystem input of Some s \<Rightarrow> s | None \<Rightarrow> 0)\<rparr>"

definition prisma_admin_create ::
  "string \<Rightarrow> AdminCreateInput \<Rightarrow> db \<Rightarrow> (exception + Admin) \<times> db" where
  "prisma_admin_create cuid input d =
     (let row = new_admin cuid input in
      if \<exists>a \<in> set (admins d). admin_id a = admin_id row then (Inl unique_id_failed, d)
      else if \<exists>a \<in> set (admins d). admin_email a = admin_email row
        then (Inl unique_email_failed, d)
      else (Inr row, d\<lparr>admins := admins d @ [row]\<rparr>))"

text \<open>
  \<open>prisma.admin.update({ where: { id }, data })\<close>. A unique column is checked
  against the other rows when the update writes it.
\<close>

definition patch_admin :: "AdminUpdateInput \<Rightarrow> Admin \<Rightarrow> Admin" where
  "patch_admin input a =
     \<lparr>admin_id = (case u_id input of Some v \<Rightarrow> v | None \<Rightarrow> admin_id a),
      admin_email = (case u_email input of Some v \<Rightarrow> v | None \<Rightarrow> admin_email a),
      admin_name = (case u_name input of Some v \<Rightarrow> v | None \<Rightarrow> admin_name a),
      admin_password = (case u_password input of Some v \<Rightarrow> v | None \<Rightarrow> admin_password a),
      admin_status = (case u_status input of Some v \<Rightarrow> v | None \<Rightarrow> admin_status a),
      admin_isSystem = (case u_isSystem input of Some v \<Rightarrow> v | None \<Rightarrow> admin_isSystem a)\<rparr>"

definition prisma_admin_update ::
  "string \<Rightarrow> AdminUpdateInput \<Rightarrow> db \<Rightarrow> (exception + Admin) \<times> db" where
  "prisma_admin_update i input d =
     (case find (\<lambda>a. admin_id a = i) (admins d) of
        None \<Rightarrow> (Inl record_not_found, d)
      | Some old \<Rightarrow>
          (let row = patch_admin input old;
               others = filter (\<lambda>a. admin_id a \<noteq> i) (admins d) in
           if u_id input \<noteq> None \<and> (\<exists>a \<in> set others. admin_id a = admin_id row)
             then (Inl unique_id_failed, d)
           else if u_email input \<noteq> None \<and> (\<exists>a \<in> set others. admin_email a = admin_email row)
             then (Inl unique_email_failed, d)
           else (Inr row,
                 d\<lparr>admins := map (\<lambda>a. if admin_id a = i then row else a) (admins d)\<rparr>)))"

text \<open>\<open>prisma.admin.deleteMany({ where })\<close>: the count of the rows deleted, and the store.\<close>

definition prisma_admin_deleteMany :: "(Admin \<Rightarrow> bool) \<Rightarrow> db \<Rightarrow> nat \<times> db" where
  "prisma_admin_deleteMany cond d =
     (length (filter cond (admins d)), d\<lparr>admins := filter (\<lambda>a. \<not> cond a) (admins d)\<rparr>)"

section \<open>The password hashing primitive\<close>

text \<open>
  \<open>bcrypt\<close> (and \<open>bcryptjs\<close>, which \<open>updatePassword\<close> uses) is an external library:
  the services take its two functions as a parameter. \<open>bcrypt_hash bc p rounds\<close> is the
  hash that a call \<open>hash(p, rounds)\<close> returns, \<open>bcrypt_compare bc p h\<close> whether the
  password \<open>p\<close> fits the hash \<open>h\<close>.
\<close>

record bcrypt =
  bcrypt_hash :: "string \<Rightarrow> nat \<Rightarrow> string"
  bcrypt_compare :: "string \<Rightarrow> string \<Rightarrow> bool"

text \<open>
  A hashing primitive is sound when a password fits the hashes made from it. This is all
  that the properties below ask of the library.
\<close>

definition sound_bcrypt :: "bcrypt \<Rightarrow> bool" where
  "sound_bcrypt bc = (\<forall>p r. bcrypt_compare bc p (bcrypt_hash bc p r))"

text \<open>
  A stand-in used to evaluate the services on concrete inputs: the hash of a password is
  the password behind a fixed prefix, and a password fits exactly the hash made from it.
\<close>

definition toy_bcrypt :: bcrypt where
  "toy_bcrypt =
     \<lparr>bcrypt_hash = (\<lambda>p r. ''$2b$10$'' @ p),
      bcrypt_compare = (\<lambda>p h. h = ''$2b$10$'' @ p)\<rparr>"

section \<open>Strings\<close>

text \<open>
  \<open>toLowerCase\<close> and \<open>toUpperCase\<close> on the ASCII letters; other characters are left as
  they are.
\<close>

definition lower_letters :: string where
  "lower_letters = ''abcdefghijklmnopqrstuvwxyz''"

definition upper_letters :: string where
  "upper_letters = ''ABCDEFGHIJKLMNOPQRSTUVWXYZ''"

definition lower_char :: "char \<Rightarrow> char" where
  "lower_char c =
     (case map_of (zip upper_letters lower_letters) c of Some l \<Rightarrow> l | None \<Rightarrow> c)"

definition upper_char :: "char \<Rightarrow> char" where
  "upper_char c =
     (case map_of (zip lower_letters upper_letters) c of Some u \<Rightarrow> u | None \<Rightarrow> c)"

definition toLowerCase :: "string \<Rightarrow> string" where
  "toLowerCase s = map lower_char s"

definition toUpperCase :: "string \<Rightarrow> string" where
  "toUpperCase s = map upper_char s"

section \<open>AdminService\<close>

text \<open>
  \<^verbatim>\<open>
  async create(data) {
      const findUser = await this.prisma.admin.findUnique({ where: { email: data.email } });
      if (findUser)
          throw new HttpException(409, `This email ${data.email} already exists`);
      const hashedPassword = await hash(data.password, 10);
      delete data.id;
      const admin = await this.prisma.admin.create({
          data: Object.assign(Object.assign({}, data), { password: hashedPassword }) });
      return admin;
  }
  \<close>
\<close>

definition AdminService_create ::
  "bcrypt \<Rightarrow> string \<Rightarrow> AdminCreateInput \<Rightarrow> db \<Rightarrow> (exception + Admin) \<times> db" where
  "AdminService_create bc cuid input d =
     (case admin_findUnique_email (c_email input) d of
        Some findUser \<Rightarrow>
          (Inl (HttpException 409 (''This email '' @ c_email input @ '' already exists'')), d)
      | None \<Rightarrow>
          (let hashedPassword = bcrypt_hash bc (c_password input) 10;
               input' = input\<lparr>c_id := None\<rparr>
           in prisma_admin_create cuid (input'\<lparr>c_password := hashedPassword\<rparr>) d))"

text \<open>
  \<^verbatim>\<open>
  async update(userId, data) {
      const findUser = await this.prisma.admin.findUnique({ where: { id: userId } });
      if (!findUser) {
          throw new HttpException(404, `User with ID ${userId} not found`);
      }
      if (data.email && data.email.toLowerCase() !== findUser.email.toLowerCase()) {
          const existingUserWithEmail =
              await this.prisma.admin.findUnique({ where: { email: data.email } });
          if (existingUserWithEmail) {
              throw new HttpException(409,
                  `Email ${data.email} is already in use by another user`);
          }
      }
      return await this.prisma.admin.update({ where: { id: userId }, data: data });
  }
  \<close>
\<close>

definition AdminService_update ::
  "string \<Rightarrow> AdminUpdateInput \<Rightarrow> db \<Rightarrow> (exception + Admin) \<times> db" where
  "AdminService_update userId input d =
     (case admin_findUnique_id userId d of
        None \<Rightarrow> (Inl (HttpException 404 (''User with ID '' @ userId @ '' not found'')), d)
      | Some findUser \<Rightarrow>
          (case u_email input of
             None \<Rightarrow> prisma_admin_update userId input d
           | Some email \<Rightarrow>
               if email \<noteq> [] \<and> toLowerCase email \<noteq> toLowerCase (admin_email findUser)
               then
                 (case admin_findUnique_email email d of
                    Some existingUserWithEmail \<Rightarrow>
                      (Inl (HttpException 409
                         (''Email '' @ email @ '' is already in use by another user'')), d)
                  | None \<Rightarrow> prisma_admin_update userId input d)
               else prisma_admin_update userId input d))"

text \<open>
  \<^verbatim>\<open>
  async delete(userIds) {
      const result = await this.prisma.admin.deleteMany({
          where: { id: { in: userIds }, isSystem: 0 } });
      if (!result.count)
          throw new HttpException(409, "User doesn't exist");
      return true;
  }
  \<close>
\<close>

definition AdminService_delete :: "string list \<Rightarrow> db \<Rightarrow> (exception + bool) \<times> db" where
  "AdminService_delete userIds d =
     (case prisma_admin_deleteMany
             (\<lambda>a. admin_id a \<in> set userIds \<and> admin_isSystem a = 0) d of
        (count, d') \<Rightarrow>
          if count = 0 then (Inl (HttpException 409 ''User doesn't exist''), d')
          else (Inr True, d'))"

text \<open>
  \<^verbatim>\<open>
  async updateProfile(adminId, name, email) {
      return this.prisma.admin.update({ where: { id: adminId }, data: { name, email } });
  }
  \<close>
  \<open>name\<close> and \<open>email\<close> come from the request body and may be undefined.
\<close>

definition AdminService_updateProfile ::
  "string \<Rightarrow> string option \<Rightarrow> string option \<Rightarrow> db \<Rightarrow> (exception + Admin) \<times> db" where
  "AdminService_updateProfile adminId name email d =
     prisma_admin_update adminId
       \<lparr>u_id = None, u_email = email, u_name = name, u_password = None,
        u_status = None, u_isSystem = None\<rparr> d"

text \<open>
  \<^verbatim>\<open>
  async updatePassword(adminId, currentPassword, newPassword) {
      const admin = await this.prisma.admin.findUnique({ where: { id: adminId } });
      if (!admin) { throw new Error('Admin not found'); }
      const isMatch = await bcryptjs.compare(currentPassword, admin.password);
      if (!isMatch) { throw new Error('Current password is incorrect'); }
      const isNewMatch = await bcryptjs.compare(newPassword, admin.password);
      if (isNewMatch) { throw new Error('New password is already used in the past'); }
      const hashedPassword = await bcryptjs.hash(newPassword, 10);
      await this.prisma.admin.update({
          where: { id: adminId }, data: { password: hashedPassword } });
  }
  \<close>
\<close>

definition AdminService_updatePassword ::
  "bcrypt \<Rightarrow> string \<Rightarrow> string \<Rightarrow> string \<Rightarrow> db \<Rightarrow> (exception + unit) \<times> db" where
  "AdminService_updatePassword bc adminId currentPassword newPassword d =
     (case admin_findUnique_id adminId d of
        None \<Rightarrow> (Inl (Error ''Admin not found''), d)
      | Some found \<Rightarrow>
          if \<not> bcrypt_compare bc currentPassword (admin_password found)
            then (Inl (Error ''Current password is incorrect''), d)
          else if bcrypt_compare bc newPassword (admin_password found)
            then (Inl (Error ''New password is already used in the past''), d)
          else
            (let hashedPassword = bcrypt_hash bc newPassword 10 in
             case prisma_admin_update adminId
                    \<lparr>u_id = None, u_email = None, u_name = None,
                     u_password = Some hashedPassword, u_status = None, u_isSystem = None\<rparr> d of
               (Inl e, d') \<Rightarrow> (Inl e, d')
             | (Inr row, d') \<Rightarrow> (Inr (), d')))"

text \<open>
  The controller's \<open>updatePassword\<close> answers 200 when the service returns and passes
  what it throws to \<open>next\<close>:
  \<^verbatim>\<open>
  try {
      const { currentPassword, newPassword } = req.body;
      const adminId = (req.user as Admin).id;
      await this.admin.updatePassword(adminId, currentPassword, newPassword);
      res.status(200).json({ message: 'Password updated successfully' });
  } catch (error) { next(error); }
  \<close>
\<close>

definition AdminController_updatePassword ::
  "bcrypt \<Rightarrow> string \<Rightarrow> string \<Rightarrow> string \<Rightarrow> db \<Rightarrow> unit outcome \<times> db" where
  "AdminController_updatePassword bc adminId currentPassword newPassword d =
     (case AdminService_updatePassword bc adminId currentPassword newPassword d of
        (Inl error, d') \<Rightarrow> (Next error, d')
      | (Inr u, d') \<Rightarrow>
          (Responded \<lparr>res_status = 200,
             res_json = \<lparr>data = None, message = ''Password updated successfully'',
                         status = None\<rparr>\<rparr>, d'))"

section \<open>RoleService and PermissionService\<close>

text \<open>
  The names of the enum \<open>UserType\<close>, as they arrive in a query string, and the subject
  type that a string names, if it names one.
\<close>

fun UserType_name :: "UserType \<Rightarrow> string" where
  "UserType_name admin = ''admin''"
| "UserType_name user = ''user''"

definition UserType_of_name :: "string \<Rightarrow> UserType option" where
  "UserType_of_name s =
     (if s = ''admin'' then Some admin else if s = ''user'' then Some user else None)"

text \<open>
  Modelled from the spec: \<open>PermissionService.findAll(type)\<close> is not among the sources;
  only its call in \<open>PermissionController.getPermissions\<close> is. The spec has the listing
  return "all Permissions of \<open>subjectType\<close>" and "fail with a validation error if
  \<open>subjectType\<close> is missing or not one of the two recognized values", a validation error
  being answered with 422. The controller under the sources checks only that the type is
  there, so the check of its value is the lookup's. The wording of the message is not in
  the spec.
\<close>

definition PermissionService_findAll :: "string \<Rightarrow> db \<Rightarrow> exception + Permission list" where
  "PermissionService_findAll utype d =
     (case UserType_of_name utype of
        None \<Rightarrow> Inl (HttpException 422 ''Type is invalid'')
      | Some t \<Rightarrow> Inr (filter (\<lambda>p. permission_type p = t) (permissions d)))"

text \<open>
  Modelled from the spec: \<open>RoleService.findAll(type)\<close> is not among the sources; only
  its call in \<open>PermissionController.getPermissions\<close> is. The spec has the listing return
  "all Roles of \<open>subjectType\<close>" and fail with a validation error for a value that is not
  a subject type, as above.
\<close>

definition RoleService_findAll :: "string \<Rightarrow> db \<Rightarrow> exception + Role list" where
  "RoleService_findAll utype d =
     (case UserType_of_name utype of
        None \<Rightarrow> Inl (HttpException 422 ''Type is invalid'')
      | Some t \<Rightarrow> Inr (filter (\<lambda>r. role_type r = t) (roles d)))"

text \<open>
  \<open>prisma.role.deleteMany({ where })\<close>. In the schema both \<open>ModelHasRole.role\<close> and
  \<open>RoleHasPermission.role\<close> are relations on \<open>roleId\<close> with \<open>onDelete: Cascade\<close>:
  the database deletes, with a role, the join rows that reference it.
\<close>

definition prisma_role_deleteMany :: "(Role \<Rightarrow> bool) \<Rightarrow> db \<Rightarrow> nat \<times> db" where
  "prisma_role_deleteMany cond d =
     (let deleted = filter cond (roles d);
          ids = map role_id deleted
      in (length deleted,
          d\<lparr>roles := filter (\<lambda>r. \<not> cond r) (roles d),
            model_has_roles := filter (\<lambda>m. mhr_roleId m \<notin> set ids) (model_has_roles d),
            role_has_permissions :=
              filter (\<lambda>p. rhp_roleId p \<notin> set ids) (role_has_permissions d)\<rparr>))"

text \<open>
  Modelled from the spec: \<open>RoleService.delete(roleIds)\<close> is not among the sources; only
  its call in \<open>deleteRole\<close> is. The spec: "\<open>deleteRole(ids)\<close>: delegates to Bulk Action
  Engine with cascade semantics", and for the bulk delete: "Deletes rows whose id is in
  \<open>ids\<close> AND \<open>isSystem != 1\<close>. If the resulting delete count is zero, fail with a not
  found / nothing deletable error". The status and the wording of the error follow
  \<open>AdminService.delete\<close>.
\<close>

definition RoleService_delete :: "string list \<Rightarrow> db \<Rightarrow> (exception + bool) \<times> db" where
  "RoleService_delete roleIds d =
     (case prisma_role_deleteMany
             (\<lambda>r. role_id r \<in> set roleIds \<and> role_isSystem r \<noteq> 1) d of
        (count, d') \<Rightarrow>
          if count = 0 then (Inl (HttpException 409 ''Role doesn't exist''), d')
          else (Inr True, d'))"

text \<open>
  Referential integrity of the join tables: every join row references a role of the
  \<open>roles\<close> table.
\<close>

definition no_dangling :: "db \<Rightarrow> bool" where
  "no_dangling d =
     ((\<forall>m \<in> set (model_has_roles d). mhr_roleId m \<in> set (map role_id (roles d)))
      \<and> (\<forall>p \<in> set (role_has_permissions d). rhp_roleId p \<in> set (map role_id (roles d))))"

section \<open>PermissionController\<close>

record permissions_data =
  data_permissions :: "Permission list"
  data_roles :: "Role list"
  data_roleHasPermissions :: "RoleHasPermission list"

text \<open>
  \<^verbatim>\<open>
  public getPermissions = async (req, res, next) => {
    try {
      const type = req.query.type;
      if (!type) {
        throw new HttpException(422,'Type is Required');
      }
      const permissions = await this.permission.findAll(type as EUserType);
      const roleHasPermissions = await this.permission.findAllRoleHasPermissions();
      const roles = await this.role.findAll(type as EUserType);
      res.status(200).json({
        data: { permissions, roles, roleHasPermissions }, message: 'findAll' });
    } catch (error) {
      next(error);
    }
  };
  \<close>
  The three lookups of the injected services are parameters of the controller;
  \<open>PermissionService.findAllRoleHasPermissions()\<close> is not among the sources and is
  nowhere given a definition: all that is used of it is that it is called without the
  subject type. The query parameter \<open>type\<close> is \<open>None\<close> when the request has none; \<open>!type\<close> is also true
  of the empty string.
\<close>

definition PermissionController_getPermissions ::
  "(string \<Rightarrow> db \<Rightarrow> exception + Permission list) \<Rightarrow>
   (db \<Rightarrow> exception + RoleHasPermission list) \<Rightarrow>
   (string \<Rightarrow> db \<Rightarrow> exception + Role list) \<Rightarrow>
   string option \<Rightarrow> db \<Rightarrow> permissions_data outcome" where
  "PermissionController_getPermissions permission_findAll findAllRoleHasPermissions
       role_findAll utype d =
     (case utype of
        None \<Rightarrow> Next (HttpException 422 ''Type is Required'')
      | Some t \<Rightarrow>
          if t = [] then Next (HttpException 422 ''Type is Required'')
          else
            (case permission_findAll t d of
               Inl error \<Rightarrow> Next error
             | Inr permissions' \<Rightarrow>
                 (case findAllRoleHasPermissions d of
                    Inl error \<Rightarrow> Next error
                  | Inr roleHasPermissions \<Rightarrow>
                      (case role_findAll t d of
                         Inl error \<Rightarrow> Next error
                       | Inr roles' \<Rightarrow>
                           Responded
                             \<lparr>res_status = 200,
                              res_json =
                                \<lparr>data = Some \<lparr>data_permissions = permissions',
                                               data_roles = roles',
                                               data_roleHasPermissions = roleHasPermissions\<rparr>,
                                 message = ''findAll'', status = None\<rparr>\<rparr>))))"

text \<open>
  The join rows of a listing in the words of the spec, to compare the controller with:
  "all RoleHasPermission rows restricted to those roles", the roles of the subject type.
\<close>

definition spec_join_rows :: "string \<Rightarrow> db \<Rightarrow> RoleHasPermission list" where
  "spec_join_rows utype d =
     filter (\<lambda>p. \<exists>r \<in> set (roles d).
                 role_id r = rhp_roleId p \<and> UserType_name (role_type r) = utype)
       (role_has_permissions d)"

section \<open>AdminController.getUsers\<close>

text \<open>
  JavaScript numbers, as far as the pagination parameters need them: \<open>Num n\<close> is the
  integer \<open>n\<close>, which a double holds exactly up to \<open>2^53\<close>. \<open>Unmodelled\<close> stands for
  the value of \<open>Number(s)\<close>, and of arithmetic on it, for a string \<open>s\<close> that is not a
  decimal integer literal below \<open>2^53\<close>: \<open>NaN\<close>, a number in another notation or a
  rounded one. Nothing is stated about it.
\<close>

datatype jsnum = Num int | Unmodelled

definition digit_of :: "char \<Rightarrow> nat option" where
  "digit_of c =
     (let n = (of_char c :: nat) in if 48 \<le> n \<and> n \<le> 57 then Some (n - 48) else None)"

fun decimal :: "string \<Rightarrow> nat \<Rightarrow> nat option" where
  "decimal [] acc = Some acc"
| "decimal (c # cs) acc =
     (case digit_of c of None \<Rightarrow> None | Some v \<Rightarrow> decimal cs (10 * acc + v))"

text \<open>\<open>Number(s)\<close> on a query string; the empty string is 0.\<close>

definition Number_string :: "string \<Rightarrow> jsnum" where
  "Number_string s =
     (case decimal s 0 of
        Some n \<Rightarrow> if n < 2 ^ 53 then Num (int n) else Unmodelled
      | None \<Rightarrow> Unmodelled)"

fun plus_one :: "jsnum \<Rightarrow> jsnum" where
  "plus_one (Num n) = (if n < 2 ^ 53 then Num (n + 1) else Unmodelled)"
| "plus_one Unmodelled = Unmodelled"

text \<open>\<open>s.split(',')\<close>.\<close>

fun split_comma :: "string \<Rightarrow> string list" where
  "split_comma [] = [[]]"
| "split_comma (c # cs) =
     (if c = CHR '','' then [] # split_comma cs
      else (case split_comma cs of
              [] \<Rightarrow> [[c]]
            | w # ws \<Rightarrow> (c # w) # ws))"

record IFindAllPaginateOptions =
  opt_pageNumber :: jsnum
  opt_perPage :: jsnum
  opt_filters :: "(string \<times> string) list"
  opt_q :: "string option"
  opt_ignoreGlobal :: "string list"
  opt_sort :: string
  opt_order :: string

text \<open>
  \<^verbatim>\<open>
  public getUsers = async (req, res, next) => {
    try {
      const { pageNumber = 0, perPage = 10, sort = 'createdAt', order = 'ASC',
              ...filters } = req.query;
      const options: IFindAllPaginateOptions = {
        pageNumber: Number(pageNumber) + 1,
        perPage: Number(perPage),
        filters: filters,
        q: req.query.q as string,
        ignoreGlobal: (req.query.ignoreGlobal as string)?.split(',') || [],
        sort: String(sort),
        order: String(order).toUpperCase() as TSortType,
      };
      const findAllUsersData = await this.admin.findAllPaginate(options);
      res.status(200).json({ data: findAllUsersData, message: 'findAll' });
    } catch (error) {
      next(error);
    }
  };
  \<close>
  The query is the list of its keys with their values, each key once and each value a
  string. \<open>findAllPaginate\<close> is inherited from \<open>BaseService\<close>, which is not among the
  sources: it is a parameter of the controller.
\<close>

definition getUsers_options :: "(string \<times> string) list \<Rightarrow> IFindAllPaginateOptions" where
  "getUsers_options query =
     (let pageNumber = (case map_of query ''pageNumber'' of
                          None \<Rightarrow> Num 0 | Some s \<Rightarrow> Number_string s);
          perPage = (case map_of query ''perPage'' of
                       None \<Rightarrow> Num 10 | Some s \<Rightarrow> Number_string s);
          sort = (case map_of query ''sort'' of None \<Rightarrow> ''createdAt'' | Some s \<Rightarrow> s);
          order = (case map_of query ''order'' of None \<Rightarrow> ''ASC'' | Some s \<Rightarrow> s);
          filters = filter (\<lambda>(k, v). k \<notin> {''pageNumber'', ''perPage'', ''sort'', ''order''})
                      query
      in \<lparr>opt_pageNumber = plus_one pageNumber,
          opt_perPage = perPage,
          opt_filters = filters,
          opt_q = map_of query ''q'',
          opt_ignoreGlobal = (case map_of query ''ignoreGlobal'' of
                                None \<Rightarrow> [] | Some s \<Rightarrow> split_comma s),
          opt_sort = sort,
          opt_order = toUpperCase order\<rparr>)"

definition AdminController_getUsers ::
  "(IFindAllPaginateOptions \<Rightarrow> db \<Rightarrow> exception + 'dt) \<Rightarrow>
   (string \<times> string) list \<Rightarrow> db \<Rightarrow> 'dt outcome" where
  "AdminController_getUsers findAllPaginate query d =
     (case findAllPaginate (getUsers_options query) d of
        Inl error \<Rightarrow> Next error
      | Inr findAllUsersData \<Rightarrow>
          Responded \<lparr>res_status = 200,
                     res_json = \<lparr>data = Some findAllUsersData, message = ''findAll'',
                                 status = None\<rparr>\<rparr>)"

section \<open>An example store\<close>

text \<open>
  A store used to evaluate the operations: a system administrator and two ordinary
  ones, one role and one permission of each subject type, and a binding of each role.
  The stored passwords are the \<open>toy_bcrypt\<close> hashes of \<open>root-pass\<close>, \<open>first-pass\<close>
  and \<open>bob-pass\<close>.
\<close>

definition example_db :: db where
  "example_db =
     \<lparr>admins =
        [\<lparr>admin_id = ''a0'', admin_email = ''root@example.com'', admin_name = ''Root'',
          admin_password = ''$2b$10$root-pass'', admin_status = 1, admin_isSystem = 1\<rparr>,
         \<lparr>admin_id = ''a1'', admin_email = ''alice@example.com'', admin_name = ''Alice'',
          admin_password = ''$2b$10$first-pass'', admin_status = 1, admin_isSystem = 0\<rparr>,
         \<lparr>admin_id = ''a2'', admin_email = ''bob@example.com'', admin_name = ''Bob'',
          admin_password = ''$2b$10$bob-pass'', admin_status = 1, admin_isSystem = 0\<rparr>],
      roles =
        [\<lparr>role_id = ''r1'', role_name = ''manager'', role_type = admin, role_status = 1,
          role_isSystem = 0\<rparr>,
         \<lparr>role_id = ''r2'', role_name = ''editor'', role_type = user, role_status = 1,
          role_isSystem = 0\<rparr>],
      permissions =
        [\<lparr>permission_id = ''p1'', permission_name = ''admin.list'', permission_type = admin,
          permission_parentId = None\<rparr>,
         \<lparr>permission_id = ''p2'', permission_name = ''post.edit'', permission_type = user,
          permission_parentId = None\<rparr>],
      model_has_roles =
        [\<lparr>mhr_id = ''m1'', mhr_roleId = ''r1'', mhr_modelId = ''a1'', mhr_modelType = admin\<rparr>,
         \<lparr>mhr_id = ''m2'', mhr_roleId = ''r2'', mhr_modelId = ''u1'', mhr_modelType = user\<rparr>],
      role_has_permissions =
        [\<lparr>rhp_roleId = ''r1'', rhp_permissionId = ''p1''\<rparr>,
         \<lparr>rhp_roleId = ''r2'', rhp_permissionId = ''p2''\<rparr>]\<rparr>"

text \<open>
  The column \<open>isSystem\<close> is an \<open>Int\<close>, and \<open>create\<close> and \<open>update\<close> write whatever the
  request sends for it. The example store with one more Admin, whose flag is 2:
\<close>

definition flagged_db :: db where
  "flagged_db =
     example_db\<lparr>admins := admins example_db @
       [\<lparr>admin_id = ''a9'', admin_email = ''dave@example.com'', admin_name = ''Dave'',
         admin_password = ''$2b$10$dave-pass'', admin_status = 1, admin_isSystem = 2\<rparr>]\<rparr>"

section \<open>Properties of the error handler\<close>

lemmas handler_eval = ErrorMiddleware_def send_json_def accepted_status_def Let_def

text \<open>
  Claim C9, as the code has it. For every error reaching the boundary error handler
  whose status is one a response accepts (100 to 999), or that carries no status (or the
  status 0), the handler answers with the envelope of a message and a status (and no
  data), and the HTTP status code is the status of the body: the status of the error, or
  500 when it has none. The message is the message of the error, unchanged, or the text
  "Something went wrong" when the error has none (or an empty one). For an error with
  any other status, sending the response throws: the handler passes that error to
  \<open>next\<close> and sends no envelope.
\<close>

theorem ErrorMiddleware_envelope:
  "(\<forall>s. exn_status e = Some s \<and> 100 \<le> s \<and> s \<le> 999 \<longrightarrow>
       (ErrorMiddleware e :: 'a outcome) =
         Responded \<lparr>res_status = s,
                    res_json = \<lparr>data = None,
                                message = or_string (exn_message e) ''Something went wrong'',
                                status = Some s\<rparr>\<rparr>)
   \<and> (exn_status e = None \<or> exn_status e = Some 0 \<longrightarrow>
       (ErrorMiddleware e :: 'a outcome) =
         Responded \<lparr>res_status = 500,
                    res_json = \<lparr>data = None,
                                message = or_string (exn_message e) ''Something went wrong'',
                                status = Some 500\<rparr>\<rparr>)
   \<and> (\<forall>m. exn_message e = Some m \<and> m \<noteq> [] \<longrightarrow>
         or_string (exn_message e) ''Something went wrong'' = m)
   \<and> (exn_message e = None \<or> exn_message e = Some [] \<longrightarrow>
         or_string (exn_message e) ''Something went wrong'' = ''Something went wrong'')
   \<and> (\<forall>s. exn_status e = Some s \<and> s \<noteq> 0 \<and> (s < 100 \<or> 999 < s) \<longrightarrow>
         (ErrorMiddleware e :: 'a outcome) = Next (RangeError ''Invalid status code''))
   \<and> (\<forall>r. (ErrorMiddleware e :: 'a outcome) = Responded r \<longrightarrow>
         data (res_json r) = None \<and> status (res_json r) = Some (res_status r)
         \<and> accepted_status (res_status r))"
  by (auto simp: handler_eval)

theorem ErrorMiddleware_envelope_witness:
  "ErrorMiddleware (HttpException 409 ''User doesn't exist'') =
     (Responded
        \<lparr>res_status = 409,
         res_json = \<lparr>data = None, message = ''User doesn't exist'', status = Some 409\<rparr>\<rparr>
      :: unit outcome)
   \<and> ErrorMiddleware (Thrown None None) =
     (Responded
        \<lparr>res_status = 500,
         res_json = \<lparr>data = None, message = ''Something went wrong'', status = Some 500\<rparr>\<rparr>
      :: unit outcome)
   \<and> ErrorMiddleware (Thrown (Some 99) None) =
     (Next (RangeError ''Invalid status code'') :: unit outcome)"
  using ErrorMiddleware_envelope [of "HttpException 409 ''User doesn't exist''", where 'a = unit]
    ErrorMiddleware_envelope [of "Thrown None None", where 'a = unit]
    ErrorMiddleware_envelope [of "Thrown (Some 99) None", where 'a = unit]
  by simp

text \<open>
  The claim as the spec states it, for every error, fails for an error whose status a
  response does not accept: for an \<open>HttpException\<close> with the status 1000 the handler
  sends no envelope, and the client gets the error page of the framework.
\<close>

theorem ErrorMiddleware_invalid_status_counterexample:
  "ErrorMiddleware (HttpException 1000 ''Out of range'') =
     (Next (RangeError ''Invalid status code'') :: unit outcome)
   \<and> settle (Next (HttpException 1000 ''Out of range'') :: unit outcome) = DefaultErrorPage"
  by (simp add: handler_eval)

section \<open>Properties of AdminService\<close>

subsection \<open>Lookups in the admins table\<close>

lemma find_email_Some:
  "\<exists>a \<in> set xs. admin_email a = e \<Longrightarrow> \<exists>a. find (\<lambda>a. admin_email a = e) xs = Some a"
  by (induction xs) auto

lemma find_id_Some:
  "find (\<lambda>a. admin_id a = i) xs = Some old \<Longrightarrow> admin_id old = i \<and> old \<in> set xs"
  by (induction xs) (auto split: if_splits)

lemma find_id_after_map:
  "find (\<lambda>a. admin_id a = i) xs = Some old \<Longrightarrow> admin_id row = i \<Longrightarrow>
   find (\<lambda>a. admin_id a = i) (map (\<lambda>a. if admin_id a = i then row else a) xs) = Some row"
  by (induction xs) (auto split: if_splits)

lemma filter_none_removed:
  "filter P xs = [] \<Longrightarrow> filter (\<lambda>a. \<not> P a) xs = xs"
  by (induction xs) (auto split: if_splits)

lemmas admin_eval =
  AdminService_updatePassword_def AdminController_updatePassword_def
  AdminService_updateProfile_def AdminService_update_def
  admin_findUnique_id_def admin_findUnique_email_def prisma_admin_update_def patch_admin_def
  toy_bcrypt_def example_db_def unique_email_failed_def handler_eval
  toLowerCase_def lower_char_def lower_letters_def upper_letters_def

subsection \<open>create\<close>

text \<open>
  The three ways \<open>create\<close> can end: the email is taken (the service's own check), the
  generated identifier is taken (the storage's primary key), or the row is inserted with
  the generated identifier and the hashed password.
\<close>

lemma AdminService_create_code:
  "AdminService_create bc cuid input d =
     (if \<exists>a \<in> set (admins d). admin_email a = c_email input
        then (Inl (HttpException 409 (''This email '' @ c_email input @ '' already exists'')), d)
      else if \<exists>a \<in> set (admins d). admin_id a = cuid then (Inl unique_id_failed, d)
      else (let row = \<lparr>admin_id = cuid, admin_email = c_email input, admin_name = c_name input,
                        admin_password = bcrypt_hash bc (c_password input) 10,
                        admin_status = (case c_status input of Some s \<Rightarrow> s | None \<Rightarrow> 1),
                        admin_isSystem = (case c_isSystem input of Some s \<Rightarrow> s | None \<Rightarrow> 0)\<rparr>
            in (Inr row, d\<lparr>admins := admins d @ [row]\<rparr>)))"
proof (cases "\<exists>a \<in> set (admins d). admin_email a = c_email input")
  case True
  then obtain a where "admin_findUnique_email (c_email input) d = Some a"
    unfolding admin_findUnique_email_def using find_email_Some by blast
  with True show ?thesis by (simp add: AdminService_create_def)
next
  case False
  then have "admin_findUnique_email (c_email input) d = None"
    by (simp add: admin_findUnique_email_def find_None_iff)
  with False show ?thesis
    by (simp add: AdminService_create_def prisma_admin_create_def new_admin_def Let_def)
qed

lemma create_succeeds:
  assumes "\<forall>a \<in> set (admins d). admin_email a \<noteq> c_email input \<and> admin_id a \<noteq> cuid"
  shows "\<exists>a d'. AdminService_create bc cuid input d = (Inr a, d')"
  using assms by (auto simp: AdminService_create_code Let_def)

text \<open>
  Claim C7. Creating an Admin whose email is the email of an existing Admin fails with
  the conflict error (status 409), and the store is unchanged: no row is created.
\<close>

theorem create_duplicate_email_conflict:
  assumes "\<exists>a \<in> set (admins d). admin_email a = c_email input"
  shows "AdminService_create bc cuid input d =
           (Inl (HttpException 409 (''This email '' @ c_email input @ '' already exists'')), d)"
  using assms by (simp add: AdminService_create_code)

theorem create_duplicate_email_conflict_witness:
  "(\<exists>a \<in> set (admins example_db). admin_email a = ''alice@example.com'')
   \<and> AdminService_create toy_bcrypt ''a3''
        \<lparr>c_id = None, c_email = ''alice@example.com'', c_name = ''Alice Again'',
         c_password = ''other-pass'', c_status = None, c_isSystem = None\<rparr> example_db =
       (Inl (HttpException 409 ''This email alice@example.com already exists''), example_db)"
proof -
  have h: "\<exists>a \<in> set (admins example_db). admin_email a =
       c_email \<lparr>c_id = None, c_email = ''alice@example.com'', c_name = ''Alice Again'',
         c_password = ''other-pass'', c_status = None, c_isSystem = None\<rparr>"
    by (simp add: example_db_def)
  show ?thesis
    using h create_duplicate_email_conflict [OF h, of toy_bcrypt "''a3''"]
    by simp
qed

text \<open>
  Claim C10. Whenever \<open>create\<close> succeeds, the row it inserts (and returns) holds the
  hash of the password of the request, not the password, and its identifier is the one
  the store generates: an identifier sent with the request is dropped before the insert,
  so the same call with any other identifier in the request (or none) gives the same row
  and the same store.
\<close>

theorem create_stores_hash_and_generated_id:
  assumes "AdminService_create bc cuid input d = (Inr a, d')"
  shows "admin_password a = bcrypt_hash bc (c_password input) 10
       \<and> admin_id a = cuid
       \<and> d' = d\<lparr>admins := admins d @ [a]\<rparr>
       \<and> AdminService_create bc cuid (input\<lparr>c_id := x\<rparr>) d = (Inr a, d')"
  using assms by (auto simp: AdminService_create_code Let_def split: if_splits)

theorem create_stores_hash_and_generated_id_witness:
  "AdminService_create toy_bcrypt ''a3''
        \<lparr>c_id = Some ''chosen-by-caller'', c_email = ''carol@example.com'', c_name = ''Carol'',
         c_password = ''carol-pass'', c_status = None, c_isSystem = None\<rparr> example_db =
     (Inr \<lparr>admin_id = ''a3'', admin_email = ''carol@example.com'', admin_name = ''Carol'',
           admin_password = ''$2b$10$carol-pass'', admin_status = 1, admin_isSystem = 0\<rparr>,
      example_db\<lparr>admins := admins example_db @
        [\<lparr>admin_id = ''a3'', admin_email = ''carol@example.com'', admin_name = ''Carol'',
          admin_password = ''$2b$10$carol-pass'', admin_status = 1, admin_isSystem = 0\<rparr>]\<rparr>)
   \<and> AdminService_create toy_bcrypt ''a3''
        \<lparr>c_id = None, c_email = ''carol@example.com'', c_name = ''Carol'',
         c_password = ''carol-pass'', c_status = None, c_isSystem = None\<rparr> example_db =
     AdminService_create toy_bcrypt ''a3''
        \<lparr>c_id = Some ''chosen-by-caller'', c_email = ''carol@example.com'', c_name = ''Carol'',
         c_password = ''carol-pass'', c_status = None, c_isSystem = None\<rparr> example_db"
proof -
  have h: "AdminService_create toy_bcrypt ''a3''
        \<lparr>c_id = Some ''chosen-by-caller'', c_email = ''carol@example.com'', c_name = ''Carol'',
         c_password = ''carol-pass'', c_status = None, c_isSystem = None\<rparr> example_db =
     (Inr \<lparr>admin_id = ''a3'', admin_email = ''carol@example.com'', admin_name = ''Carol'',
           admin_password = ''$2b$10$carol-pass'', admin_status = 1, admin_isSystem = 0\<rparr>,
      example_db\<lparr>admins := admins example_db @
        [\<lparr>admin_id = ''a3'', admin_email = ''carol@example.com'', admin_name = ''Carol'',
          admin_password = ''$2b$10$carol-pass'', admin_status = 1, admin_isSystem = 0\<rparr>]\<rparr>)"
    by (simp add: AdminService_create_def admin_findUnique_email_def prisma_admin_create_def
        new_admin_def toy_bcrypt_def example_db_def Let_def)
  from create_stores_hash_and_generated_id [OF h, of None] h show ?thesis
    by simp
qed

subsection \<open>delete\<close>

text \<open>
  What \<open>delete\<close> does on any store: the rows removed are those with an identifier of the
  request and \<open>isSystem = 0\<close>; when there is none the call throws and the store is as
  before.
\<close>

lemma AdminService_delete_code:
  "AdminService_delete userIds d =
     (let P = (\<lambda>a. admin_id a \<in> set userIds \<and> admin_isSystem a = 0) in
      if filter P (admins d) = [] then (Inl (HttpException 409 ''User doesn't exist''), d)
      else (Inr True, d\<lparr>admins := filter (\<lambda>a. \<not> P a) (admins d)\<rparr>))"
proof (cases "filter (\<lambda>a. admin_id a \<in> set userIds \<and> admin_isSystem a = 0) (admins d) = []")
  case True
  from filter_none_removed [OF True]
  have "d\<lparr>admins := filter (\<lambda>a. \<not> (admin_id a \<in> set userIds \<and> admin_isSystem a = 0))
                           (admins d)\<rparr> = d"
    by simp
  with True show ?thesis
    by (simp add: AdminService_delete_def prisma_admin_deleteMany_def Let_def)
next
  case False
  then show ?thesis
    by (simp add: AdminService_delete_def prisma_admin_deleteMany_def Let_def)
qed

text \<open>
  Claim C3, as the code has it. For every list of identifiers, the bulk delete of Admins
  removes exactly the rows whose identifier is in the list and whose \<open>isSystem\<close> flag is
  0, and answers \<open>true\<close>; when there is no such row (every identifier is protected or
  unknown) it throws the error 409 and leaves the store as it was. So an Admin whose flag
  is not 0, and an Admin with \<open>isSystem = 1\<close> in particular, is still there after the
  call.
\<close>

theorem delete_removes_unprotected:
  "AdminService_delete userIds d =
     (if \<exists>a \<in> set (admins d). admin_id a \<in> set userIds \<and> admin_isSystem a = 0
      then (Inr True,
            d\<lparr>admins := filter (\<lambda>a. \<not> (admin_id a \<in> set userIds \<and> admin_isSystem a = 0))
                          (admins d)\<rparr>)
      else (Inl (HttpException 409 ''User doesn't exist''), d))
   \<and> (\<forall>a. a \<in> set (admins d) \<and> admin_isSystem a \<noteq> 0 \<longrightarrow>
          a \<in> set (admins (snd (AdminService_delete userIds d))))
   \<and> (\<forall>a. a \<in> set (admins d) \<and> admin_isSystem a = 1 \<longrightarrow>
          a \<in> set (admins (snd (AdminService_delete userIds d))))"
proof (intro conjI)
  have "(filter (\<lambda>a. admin_id a \<in> set userIds \<and> admin_isSystem a = 0) (admins d) = []) =
        (\<not> (\<exists>a \<in> set (admins d). admin_id a \<in> set userIds \<and> admin_isSystem a = 0))"
    by (simp add: filter_empty_conv)
  then show "AdminService_delete userIds d =
     (if \<exists>a \<in> set (admins d). admin_id a \<in> set userIds \<and> admin_isSystem a = 0
      then (Inr True,
            d\<lparr>admins := filter (\<lambda>a. \<not> (admin_id a \<in> set userIds \<and> admin_isSystem a = 0))
                          (admins d)\<rparr>)
      else (Inl (HttpException 409 ''User doesn't exist''), d))"
    unfolding AdminService_delete_code Let_def
    by auto
next
  show "\<forall>a. a \<in> set (admins d) \<and> admin_isSystem a \<noteq> 0 \<longrightarrow>
          a \<in> set (admins (snd (AdminService_delete userIds d)))"
    by (simp add: AdminService_delete_code Let_def)
next
  show "\<forall>a. a \<in> set (admins d) \<and> admin_isSystem a = 1 \<longrightarrow>
          a \<in> set (admins (snd (AdminService_delete userIds d)))"
    by (simp add: AdminService_delete_code Let_def)
qed

theorem delete_removes_unprotected_witness:
  "map admin_id (admins (snd (AdminService_delete [''a0'', ''a1'', ''zz''] example_db)))
       = [''a0'', ''a2'']
   \<and> fst (AdminService_delete [''a0'', ''a1'', ''zz''] example_db) = Inr True
   \<and> AdminService_delete [''a0'', ''zz''] example_db =
       (Inl (HttpException 409 ''User doesn't exist''), example_db)"
  using delete_removes_unprotected [of "[''a0'', ''a1'', ''zz'']" example_db]
    delete_removes_unprotected [of "[''a0'', ''zz'']" example_db]
  by (simp add: example_db_def)

text \<open>
  The claim as the spec states it, with "not 1" for the flag, fails on a store that holds
  another flag: Dave's identifier is in the list and his flag, 2, is not 1, yet the
  delete removes nothing, throws 409 and keeps his row.
\<close>

theorem delete_flag_not_one_counterexample:
  "map (\<lambda>a. (admin_id a, admin_isSystem a)) (admins flagged_db) =
     [(''a0'', 1), (''a1'', 0), (''a2'', 0), (''a9'', 2)]
   \<and> AdminService_delete [''a9''] flagged_db =
       (Inl (HttpException 409 ''User doesn't exist''), flagged_db)"
  by (simp add: AdminService_delete_code flagged_db_def example_db_def)

subsection \<open>updatePassword\<close>

lemma update_password_only:
  assumes "admin_findUnique_id i d = Some old"
  shows "prisma_admin_update i
           \<lparr>u_id = None, u_email = None, u_name = None, u_password = Some h,
            u_status = None, u_isSystem = None\<rparr> d =
         (Inr (old\<lparr>admin_password := h\<rparr>),
          d\<lparr>admins := map (\<lambda>a. if admin_id a = i then old\<lparr>admin_password := h\<rparr> else a)
                         (admins d)\<rparr>)"
  using assms
  by (simp add: prisma_admin_update_def admin_findUnique_id_def patch_admin_def Let_def)

text \<open>
  Claim C4, as the code has it. For an update of the password of an existing Admin with
  a correct current password: a new password equal to the current one fails with the
  plain error "New password is already used in the past" and leaves the store, and so
  the stored hash, unchanged; a new password that does not fit the stored hash succeeds,
  and the stored hash becomes the hash of the new password (a different hash, for a
  sound hashing primitive). The only hash the new password is compared with is the
  stored one: no earlier password is remembered.
\<close>

theorem updatePassword_reuse:
  assumes "admin_findUnique_id adminId d = Some found"
      and "bcrypt_compare bc currentPassword (admin_password found)"
  shows "(newPassword = currentPassword \<longrightarrow>
            AdminService_updatePassword bc adminId currentPassword newPassword d =
              (Inl (Error ''New password is already used in the past''), d))
       \<and> (\<not> bcrypt_compare bc newPassword (admin_password found) \<longrightarrow>
            (\<exists>d' row.
               AdminService_updatePassword bc adminId currentPassword newPassword d = (Inr (), d')
               \<and> admin_findUnique_id adminId d' = Some row
               \<and> admin_password row = bcrypt_hash bc newPassword 10
               \<and> (sound_bcrypt bc \<longrightarrow> admin_password row \<noteq> admin_password found)))"
proof (intro conjI impI)
  assume "newPassword = currentPassword"
  with assms show "AdminService_updatePassword bc adminId currentPassword newPassword d =
      (Inl (Error ''New password is already used in the past''), d)"
    by (simp add: AdminService_updatePassword_def)
next
  assume new: "\<not> bcrypt_compare bc newPassword (admin_password found)"
  let ?h = "bcrypt_hash bc newPassword 10"
  let ?row = "found\<lparr>admin_password := ?h\<rparr>"
  let ?d' = "d\<lparr>admins := map (\<lambda>a. if admin_id a = adminId then ?row else a) (admins d)\<rparr>"
  from assms(1) have idf: "admin_id found = adminId"
    unfolding admin_findUnique_id_def using find_id_Some by blast
  have run: "AdminService_updatePassword bc adminId currentPassword newPassword d = (Inr (), ?d')"
    using assms new
    by (simp add: AdminService_updatePassword_def update_password_only [OF assms(1)] Let_def)
  have look: "admin_findUnique_id adminId ?d' = Some ?row"
    using assms(1) idf find_id_after_map [of adminId "admins d" found ?row]
    by (simp add: admin_findUnique_id_def)
  have differs: "sound_bcrypt bc \<longrightarrow> admin_password ?row \<noteq> admin_password found"
  proof
    assume "sound_bcrypt bc"
    then have "bcrypt_compare bc newPassword ?h" by (simp add: sound_bcrypt_def)
    with new show "admin_password ?row \<noteq> admin_password found" by auto
  qed
  from run look differs
  show "\<exists>d' row.
      AdminService_updatePassword bc adminId currentPassword newPassword d = (Inr (), d')
      \<and> admin_findUnique_id adminId d' = Some row
      \<and> admin_password row = bcrypt_hash bc newPassword 10
      \<and> (sound_bcrypt bc \<longrightarrow> admin_password row \<noteq> admin_password found)"
    by (intro exI [of _ ?d'] exI [of _ ?row]) simp
qed

theorem updatePassword_reuse_witness:
  "admin_findUnique_id ''a1'' example_db =
     Some \<lparr>admin_id = ''a1'', admin_email = ''alice@example.com'', admin_name = ''Alice'',
           admin_password = ''$2b$10$first-pass'', admin_status = 1, admin_isSystem = 0\<rparr>
   \<and> bcrypt_compare toy_bcrypt ''first-pass'' ''$2b$10$first-pass''
   \<and> \<not> bcrypt_compare toy_bcrypt ''second-pass'' ''$2b$10$first-pass''
   \<and> sound_bcrypt toy_bcrypt
   \<and> AdminService_updatePassword toy_bcrypt ''a1'' ''first-pass'' ''first-pass'' example_db =
       (Inl (Error ''New password is already used in the past''), example_db)
   \<and> fst (AdminService_updatePassword toy_bcrypt ''a1'' ''first-pass'' ''second-pass''
            example_db) = Inr ()
   \<and> map admin_password
        (admins (snd (AdminService_updatePassword toy_bcrypt ''a1'' ''first-pass''
                        ''second-pass'' example_db))) =
       [''$2b$10$root-pass'', ''$2b$10$second-pass'', ''$2b$10$bob-pass'']"
proof -
  let ?alice = "\<lparr>admin_id = ''a1'', admin_email = ''alice@example.com'', admin_name = ''Alice'',
           admin_password = ''$2b$10$first-pass'', admin_status = 1, admin_isSystem = 0\<rparr>"
  have f: "admin_findUnique_id ''a1'' example_db = Some ?alice"
    by (simp add: admin_findUnique_id_def example_db_def)
  have c: "bcrypt_compare toy_bcrypt ''first-pass'' (admin_password ?alice)"
    by (simp add: toy_bcrypt_def)
  have s: "sound_bcrypt toy_bcrypt"
    by (simp add: sound_bcrypt_def toy_bcrypt_def)
  show ?thesis
    using f c s updatePassword_reuse [OF f c, of "''first-pass''"]
      updatePassword_reuse [OF f c, of "''second-pass''"]
    by (simp add: admin_eval)
qed

text \<open>
  The claim as the spec states it fails twice. Alice changes her password from
  \<open>first-pass\<close> to \<open>second-pass\<close> and then back to \<open>first-pass\<close>, her immediately
  previous password: both calls succeed. And when she reuses her current password, what
  is thrown is a plain \<open>Error\<close> with no status, which the error handler answers with
  500, not with the 409 of a conflict.
\<close>

theorem updatePassword_previous_password_counterexample:
  "fst (AdminService_updatePassword toy_bcrypt ''a1'' ''first-pass'' ''second-pass''
          example_db) = Inr ()
   \<and> fst (AdminService_updatePassword toy_bcrypt ''a1'' ''second-pass'' ''first-pass''
            (snd (AdminService_updatePassword toy_bcrypt ''a1'' ''first-pass'' ''second-pass''
                    example_db))) = Inr ()
   \<and> settle (fst (AdminController_updatePassword toy_bcrypt ''a1'' ''first-pass''
                    ''first-pass'' example_db)) =
       Json \<lparr>res_status = 500,
             res_json = \<lparr>data = None, message = ''New password is already used in the past'',
                         status = Some 500\<rparr>\<rparr>"
  by (simp add: admin_eval)

subsection \<open>The write paths that set an email\<close>

text \<open>
  \<open>create\<close> and \<open>update\<close> look the email up and throw the conflict error of the
  service before they write (\<open>update\<close> when the new email differs from the Admin's own
  up to letter case). \<open>updateProfile\<close> writes at once: it never throws an
  \<open>HttpException\<close>, and a duplicate email is only stopped by the storage.
\<close>

lemma update_email_conflict:
  assumes "admin_findUnique_id userId d = Some found"
      and "e \<noteq> []" and "toLowerCase e \<noteq> toLowerCase (admin_email found)"
      and "\<exists>a \<in> set (admins d). admin_email a = e"
      and "u_email input = Some e"
  shows "AdminService_update userId input d =
           (Inl (HttpException 409 (''Email '' @ e @ '' is already in use by another user'')), d)"
proof -
  from assms(4) obtain a where "admin_findUnique_email e d = Some a"
    unfolding admin_findUnique_email_def using find_email_Some by blast
  with assms show ?thesis by (simp add: AdminService_update_def)
qed

lemma updateProfile_never_conflict:
  "fst (AdminService_updateProfile adminId name email d) \<noteq> Inl (HttpException s m)"
  by (simp add: AdminService_updateProfile_def prisma_admin_update_def Let_def
      unique_email_failed_def unique_id_failed_def record_not_found_def split: option.splits)

text \<open>
  Claim C6 at a concrete input. Bob (\<open>a2\<close>) sets the email of his profile to Alice's.
  \<open>updateProfile\<close> makes no lookup and ends with the storage's unique-constraint error,
  which has no status and is answered with 500; the same change through \<open>update\<close> ends
  with the service's conflict error 409. The store is unchanged in both cases.
\<close>

theorem updateProfile_duplicate_email_storage_error:
  "AdminService_updateProfile ''a2'' (Some ''Bob'') (Some ''alice@example.com'') example_db =
     (Inl (PrismaClientKnownRequestError ''P2002''
             ''Unique constraint failed on the fields: (email)''), example_db)
   \<and> settle (Next (PrismaClientKnownRequestError ''P2002''
             ''Unique constraint failed on the fields: (email)'') :: Admin outcome) =
       Json \<lparr>res_status = 500,
             res_json = \<lparr>data = None,
                         message = ''Unique constraint failed on the fields: (email)'',
                         status = Some 500\<rparr>\<rparr>
   \<and> AdminService_update ''a2''
        \<lparr>u_id = None, u_email = Some ''alice@example.com'', u_name = Some ''Bob'',
         u_password = None, u_status = None, u_isSystem = None\<rparr> example_db =
     (Inl (HttpException 409 ''Email alice@example.com is already in use by another user''),
      example_db)"
  by (simp add: admin_eval)

section \<open>Properties of the role and permission operations\<close>

lemmas rbac_eval =
  RoleService_delete_def prisma_role_deleteMany_def no_dangling_def example_db_def Let_def
  PermissionController_getPermissions_def PermissionService_findAll_def
  RoleService_findAll_def UserType_of_name_def spec_join_rows_def

subsection \<open>Deleting roles\<close>

lemma RoleService_delete_store:
  "snd (RoleService_delete roleIds d) =
     snd (prisma_role_deleteMany (\<lambda>r. role_id r \<in> set roleIds \<and> role_isSystem r \<noteq> 1) d)"
  by (simp add: RoleService_delete_def split: prod.splits)

lemma deleteMany_cascades:
  assumes "r \<in> set (roles d)" and "r \<notin> set (roles (snd (prisma_role_deleteMany cond d)))"
  shows "(\<forall>m \<in> set (model_has_roles (snd (prisma_role_deleteMany cond d))).
            mhr_roleId m \<noteq> role_id r)
       \<and> (\<forall>p \<in> set (role_has_permissions (snd (prisma_role_deleteMany cond d))).
            rhp_roleId p \<noteq> role_id r)"
proof -
  from assms have "cond r" by (simp add: prisma_role_deleteMany_def Let_def)
  with assms(1) have "role_id r \<in> set (map role_id (filter cond (roles d)))" by auto
  then show ?thesis by (auto simp: prisma_role_deleteMany_def Let_def)
qed

lemma deleteMany_no_dangling:
  assumes "no_dangling d"
  shows "no_dangling (snd (prisma_role_deleteMany cond d))"
  using assms
  by (fastforce simp: no_dangling_def prisma_role_deleteMany_def Let_def)

text \<open>
  Claim C5. After a deletion of roles, no \<open>ModelHasRole\<close> row and no
  \<open>RoleHasPermission\<close> row of the store references the identifier of a role that the
  deletion removed; and a store without dangling join rows has none afterwards.
\<close>

theorem delete_role_cascades:
  "(\<forall>r \<in> set (roles d). r \<notin> set (roles (snd (RoleService_delete roleIds d))) \<longrightarrow>
      (\<forall>m \<in> set (model_has_roles (snd (RoleService_delete roleIds d))).
          mhr_roleId m \<noteq> role_id r)
      \<and> (\<forall>p \<in> set (role_has_permissions (snd (RoleService_delete roleIds d))).
          rhp_roleId p \<noteq> role_id r))
   \<and> (no_dangling d \<longrightarrow> no_dangling (snd (RoleService_delete roleIds d)))"
  unfolding RoleService_delete_store
  using deleteMany_cascades deleteMany_no_dangling by blast

theorem delete_role_cascades_witness:
  "RoleService_delete [''r1'', ''r9''] example_db =
     (Inr True,
      example_db
        \<lparr>roles := [\<lparr>role_id = ''r2'', role_name = ''editor'', role_type = user, role_status = 1,
                    role_isSystem = 0\<rparr>],
         model_has_roles :=
           [\<lparr>mhr_id = ''m2'', mhr_roleId = ''r2'', mhr_modelId = ''u1'', mhr_modelType = user\<rparr>],
         role_has_permissions := [\<lparr>rhp_roleId = ''r2'', rhp_permissionId = ''p2''\<rparr>]\<rparr>)
   \<and> no_dangling example_db
   \<and> no_dangling (snd (RoleService_delete [''r1'', ''r9''] example_db))"
  using delete_role_cascades [of example_db "[''r1'', ''r9'']"]
  by (simp add: rbac_eval)

subsection \<open>Listing permissions and roles\<close>

text \<open>
  Whatever the lookups of the services are, the join rows of a listing do not depend on
  the subject type of the request: the lookup for them has no argument.
\<close>

lemma getPermissions_join_rows_independent:
  assumes "PermissionController_getPermissions pf jf rf (Some t) d = Responded r"
      and "PermissionController_getPermissions pf jf rf (Some t') d = Responded r'"
  shows "map_option data_roleHasPermissions (data (res_json r)) =
         map_option data_roleHasPermissions (data (res_json r'))"
  using assms
  by (auto simp: PermissionController_getPermissions_def split: if_splits sum.splits)








text \<open>
  A type that is there passes the controller's own check: the controller then answers
  200 with what the three lookups return, and passes on an error only when one of the
  lookups throws it.
\<close>

lemma getPermissions_passes_lookups:
  assumes "t \<noteq> []"
  shows "case PermissionController_getPermissions pf jf rf (Some t) d of
           Responded r \<Rightarrow>
             res_status r = 200
             \<and> (\<exists>ps js rs. pf t d = Inr ps \<and> jf d = Inr js \<and> rf t d = Inr rs
                  \<and> data (res_json r) =
                      Some \<lparr>data_permissions = ps, data_roles = rs,
                            data_roleHasPermissions = js\<rparr>)
         | Next e \<Rightarrow> pf t d = Inl e \<or> jf d = Inl e \<or> rf t d = Inl e"
  using assms
  by (auto simp: PermissionController_getPermissions_def split: sum.splits)



section \<open>Properties of the paginated listing\<close>

lemmas case_eval = toUpperCase_def toLowerCase_def upper_char_def lower_char_def
  lower_letters_def upper_letters_def

lemma toUpperCase_ASC: "toUpperCase ''ASC'' = ''ASC''"
  by (simp add: case_eval)

lemma opt_pageNumber_eq:
  "opt_pageNumber (getUsers_options query) =
     plus_one (case map_of query ''pageNumber'' of None \<Rightarrow> Num 0 | Some s \<Rightarrow> Number_string s)"
  by (simp add: getUsers_options_def Let_def)

lemma opt_perPage_eq:
  "opt_perPage (getUsers_options query) =
     (case map_of query ''perPage'' of None \<Rightarrow> Num 10 | Some s \<Rightarrow> Number_string s)"
  by (simp add: getUsers_options_def Let_def)

lemma opt_sort_eq:
  "opt_sort (getUsers_options query) =
     (case map_of query ''sort'' of None \<Rightarrow> ''createdAt'' | Some s \<Rightarrow> s)"
  by (simp add: getUsers_options_def Let_def)

lemma opt_order_eq:
  "opt_order (getUsers_options query) =
     toUpperCase (case map_of query ''order'' of None \<Rightarrow> ''ASC'' | Some s \<Rightarrow> s)"
  by (simp add: getUsers_options_def Let_def)

lemma plus_one_Number_string:
  assumes "decimal s 0 = Some n" and "n < 2 ^ 53"
  shows "plus_one (Number_string s) = Num (int n + 1)"
proof -
  from assms have "Number_string s = Num (int n)" by (simp add: Number_string_def)
  moreover from assms(2) have "int n < 2 ^ 53"
    by (metis of_nat_less_iff of_nat_numeral of_nat_power)
  ultimately show ?thesis by (simp del: power_numeral)
qed

lemma decimal_2: "decimal ''2'' 0 = Some 2"
  by (simp add: digit_of_def)

lemma getUsers_options_example:
  "getUsers_options [(''pageNumber'', ''2''), (''order'', ''desc''), (''status'', ''1''),
      (''q'', ''ali''), (''ignoreGlobal'', ''name,email'')] =
     \<lparr>opt_pageNumber = Num 3, opt_perPage = Num 10,
      opt_filters = [(''status'', ''1''), (''q'', ''ali''), (''ignoreGlobal'', ''name,email'')],
      opt_q = Some ''ali'', opt_ignoreGlobal = [''name'', ''email''],
      opt_sort = ''createdAt'', opt_order = ''DESC''\<rparr>"
  by (simp add: getUsers_options_def Number_string_def digit_of_def case_eval Let_def)

text \<open>
  Claim C8. For every paginated list request, \<open>getUsers\<close> calls \<open>findAllPaginate\<close> with
  options built from the query: the page number is the caller's 0-based page number
  plus 1 (for a decimal page number below \<open>2^53\<close>), and 1 when the query has none;
  \<open>perPage\<close> is 10, \<open>sort\<close> is \<open>createdAt\<close> and \<open>order\<close> is \<open>ASC\<close> when the query
  does not have them; an order of the query is upper-cased.
\<close>

theorem getUsers_options_defaults:
  "AdminController_getUsers findAllPaginate query d =
     (case findAllPaginate (getUsers_options query) d of
        Inl e \<Rightarrow> Next e
      | Inr r \<Rightarrow> Responded \<lparr>res_status = 200,
                             res_json = \<lparr>data = Some r, message = ''findAll'', status = None\<rparr>\<rparr>)
   \<and> (\<forall>s n. map_of query ''pageNumber'' = Some s \<and> decimal s 0 = Some n \<and> n < 2 ^ 53 \<longrightarrow>
         opt_pageNumber (getUsers_options query) = Num (int n + 1))
   \<and> (map_of query ''pageNumber'' = None \<longrightarrow> opt_pageNumber (getUsers_options query) = Num 1)
   \<and> (map_of query ''perPage'' = None \<longrightarrow> opt_perPage (getUsers_options query) = Num 10)
   \<and> (map_of query ''sort'' = None \<longrightarrow> opt_sort (getUsers_options query) = ''createdAt'')
   \<and> (map_of query ''order'' = None \<longrightarrow> opt_order (getUsers_options query) = ''ASC'')
   \<and> (\<forall>s. map_of query ''order'' = Some s \<longrightarrow>
         opt_order (getUsers_options query) = toUpperCase s)"
proof (intro conjI allI impI)
  show "AdminController_getUsers findAllPaginate query d =
     (case findAllPaginate (getUsers_options query) d of
        Inl e \<Rightarrow> Next e
      | Inr r \<Rightarrow> Responded \<lparr>res_status = 200,
                             res_json = \<lparr>data = Some r, message = ''findAll'', status = None\<rparr>\<rparr>)"
    by (simp add: AdminController_getUsers_def)
next
  fix s n
  assume "map_of query ''pageNumber'' = Some s \<and> decimal s 0 = Some n \<and> n < 2 ^ 53"
  then show "opt_pageNumber (getUsers_options query) = Num (int n + 1)"
    by (simp add: opt_pageNumber_eq plus_one_Number_string del: power_numeral)
next
  assume "map_of query ''pageNumber'' = None"
  then show "opt_pageNumber (getUsers_options query) = Num 1"
    by (simp add: opt_pageNumber_eq)
next
  assume "map_of query ''perPage'' = None"
  then show "opt_perPage (getUsers_options query) = Num 10"
    by (simp add: opt_perPage_eq)
next
  assume "map_of query ''sort'' = None"
  then show "opt_sort (getUsers_options query) = ''createdAt''"
    by (simp add: opt_sort_eq)
next
  assume "map_of query ''order'' = None"
  then show "opt_order (getUsers_options query) = ''ASC''"
    by (simp add: opt_order_eq toUpperCase_ASC)
next
  fix s
  assume "map_of query ''order'' = Some s"
  then show "opt_order (getUsers_options query) = toUpperCase s"
    by (simp add: opt_order_eq)
qed

theorem getUsers_options_defaults_witness:
  "map_of [(''pageNumber'', ''2''), (''order'', ''desc''), (''status'', ''1'')] ''pageNumber''
     = Some ''2''
   \<and> decimal ''2'' 0 = Some 2
   \<and> opt_pageNumber (getUsers_options
        [(''pageNumber'', ''2''), (''order'', ''desc''), (''status'', ''1'')]) = Num 3
   \<and> opt_perPage (getUsers_options
        [(''pageNumber'', ''2''), (''order'', ''desc''), (''status'', ''1'')]) = Num 10
   \<and> opt_sort (getUsers_options
        [(''pageNumber'', ''2''), (''order'', ''desc''), (''status'', ''1'')]) = ''createdAt''
   \<and> opt_order (getUsers_options
        [(''pageNumber'', ''2''), (''order'', ''desc''), (''status'', ''1'')]) = ''DESC''
   \<and> opt_pageNumber (getUsers_options []) = Num 1
   \<and> opt_order (getUsers_options []) = ''ASC''"
proof -
  let ?q = "[(''pageNumber'', ''2''), (''order'', ''desc''), (''status'', ''1'')]"
  note T = getUsers_options_defaults [of _ ?q]
  note E = getUsers_options_defaults [of _ "[]"]
  have u: "toUpperCase ''desc'' = ''DESC''"
    by (simp add: case_eval)
  have m: "map_of ?q ''pageNumber'' = Some ''2''" "map_of ?q ''perPage'' = None"
    "map_of ?q ''sort'' = None" "map_of ?q ''order'' = Some ''desc''"
    by simp_all
  have e: "map_of ([] :: (string \<times> string) list) ''pageNumber'' = None"
    "map_of ([] :: (string \<times> string) list) ''order'' = None"
    by simp_all
  have p: "(2::nat) < 2 ^ 53" by simp
  have "opt_pageNumber (getUsers_options ?q) = Num (int 2 + 1)"
    using T m(1) decimal_2 p by blast
  then have c1: "opt_pageNumber (getUsers_options ?q) = Num 3" by simp
  have c2: "opt_perPage (getUsers_options ?q) = Num 10" using T m(2) by blast
  have c3: "opt_sort (getUsers_options ?q) = ''createdAt''" using T m(3) by blast
  have "opt_order (getUsers_options ?q) = toUpperCase ''desc''" using T m(4) by blast
  with u have c4: "opt_order (getUsers_options ?q) = ''DESC''" by simp
  have c5: "opt_pageNumber (getUsers_options []) = Num 1" using E e(1) by blast
  have c6: "opt_order (getUsers_options []) = ''ASC''" using E e(2) by blast
  from m(1) decimal_2 c1 c2 c3 c4 c5 c6 show ?thesis by blast
qed

end
